theory Spec2Isabelle
  imports Complex_Main "HOL-Library.Option_ord" "HOL-Library.Multiset"
begin

section \<open>JavaScript values and objects\<close>

text \<open>
  The repository code works on untyped JavaScript objects (\<^verbatim>\<open>data: any\<close>, rows
  returned by the query builder, JSON columns). A value is a JSON value or a
  \<^verbatim>\<open>Date\<close>; an object is a finite map from property names to values. The
  value \<^verbatim>\<open>undefined\<close> is \<open>None\<close>: reading a property an object does not have
  gives \<open>None\<close>.
\<close>

datatype val =
    JNull
  | JBool bool
  | JNum int
  | JStr string
  | JDate int
  | JArr "val list"
  | JObj "string \<Rightarrow> val option"

type_synonym obj = "string \<rightharpoonup> val"

text \<open>JavaScript truthiness, as tested by \<^verbatim>\<open>if (x)\<close>, \<^verbatim>\<open>x || y\<close> and \<^verbatim>\<open>!x\<close>.\<close>

fun truthy :: "val option \<Rightarrow> bool" where
  "truthy None = False"
| "truthy (Some JNull) = False"
| "truthy (Some (JBool b)) = b"
| "truthy (Some (JNum n)) = (n \<noteq> 0)"
| "truthy (Some (JStr s)) = (s \<noteq> [])"
| "truthy (Some (JDate d)) = True"
| "truthy (Some (JArr xs)) = True"
| "truthy (Some (JObj m)) = True"

text \<open>\<^verbatim>\<open>x != null\<close>: neither \<^verbatim>\<open>null\<close> nor \<^verbatim>\<open>undefined\<close>.\<close>

fun not_null :: "val option \<Rightarrow> bool" where
  "not_null None = False"
| "not_null (Some JNull) = False"
| "not_null (Some v) = True"

text \<open>\<^verbatim>\<open>a || b\<close> on possibly undefined values.\<close>

definition js_or :: "val option \<Rightarrow> val option \<Rightarrow> val option" where
  "js_or a b = (if truthy a then a else b)"

text \<open>\<^verbatim>\<open>a || b\<close> where \<open>b\<close> is a defined value.\<close>

definition js_or_val :: "val option \<Rightarrow> val \<Rightarrow> val" where
  "js_or_val a b = (case a of None \<Rightarrow> b | Some v \<Rightarrow> if truthy a then v else b)"

text \<open>Decimal numerals, the property names of array elements and string characters.\<close>

definition digit :: "nat \<Rightarrow> char" where
  "digit n = char_of (48 + n)"

function show_nat :: "nat \<Rightarrow> string" where
  "show_nat n = (if n < 10 then [digit n] else show_nat (n div 10) @ [digit (n mod 10)])"
  by pat_completeness auto
termination
  by (relation "measure (\<lambda>n. n)") auto

definition indexed :: "val list \<Rightarrow> obj" where
  "indexed xs = map_of (zip (map show_nat [0..<length xs]) xs)"

text \<open>
  The own enumerable properties of a value, which is what object spread
  \<^verbatim>\<open>{...x}\<close> and rest destructuring copy: the entries of an object, the indexed
  elements of an array, the indexed characters of a string, nothing for
  \<^verbatim>\<open>null\<close>, \<^verbatim>\<open>undefined\<close>, booleans, numbers and dates.
\<close>

fun spread :: "val option \<Rightarrow> obj" where
  "spread (Some (JObj m)) = m"
| "spread (Some (JArr xs)) = indexed xs"
| "spread (Some (JStr s)) = indexed (map (\<lambda>c. JStr [c]) s)"
| "spread _ = Map.empty"

text \<open>
  Property access \<^verbatim>\<open>x?.k\<close> for the property names the code reads
  (\<^verbatim>\<open>richContent\<close>, \<^verbatim>\<open>url\<close>), none of which is a prototype property: the own
  property, or undefined.
\<close>

definition get_prop :: "val option \<Rightarrow> string \<Rightarrow> val option" where
  "get_prop v k = spread v k"

text \<open>
  An object literal while it is built may hold a key whose value is
  \<^verbatim>\<open>undefined\<close>: \<open>Some None\<close>. The loop
  \<^verbatim>\<open>Object.keys(o).forEach(k => { if (o[k] === undefined) delete o[k] })\<close>
  removes exactly those keys; a key holding \<^verbatim>\<open>null\<close> stays.
\<close>

type_synonym literal = "string \<rightharpoonup> val option"

definition lit :: "obj \<Rightarrow> literal" where
  "lit m = (\<lambda>k. map_option Some (m k))"

definition remove_undefined :: "literal \<Rightarrow> obj" where
  "remove_undefined l = (\<lambda>k. case l k of Some (Some v) \<Rightarrow> Some v | _ \<Rightarrow> None)"

section \<open>The species table\<close>

text \<open>
  A row of the \<^verbatim>\<open>species\<close> table is an object keyed by column name
  (\<^verbatim>\<open>id\<close>, \<^verbatim>\<open>slug\<close>, \<^verbatim>\<open>status\<close>, the published fields, \<^verbatim>\<open>draftData\<close>,
  \<^verbatim>\<open>hasDraft\<close>, \<^verbatim>\<open>draftCreatedAt\<close>, \<^verbatim>\<open>publishedAt\<close>, \<^verbatim>\<open>createdAt\<close>,
  \<^verbatim>\<open>updatedAt\<close>, ...). The table is the list of its rows in the order the
  database scans them. Timestamps are \<open>JDate\<close> values; the clock reading of an
  operation is its argument \<open>now\<close>. Failures of the database itself
  (constraint violations, lost connections) are outside the model.
\<close>

type_synonym row = obj
type_synonym table = "row list"

datatype error =
    Error string
  | TypeError
  | DbError
  | NotFoundException string
  | ForbiddenException string

text \<open>\<^verbatim>\<open>const [x] = await query\<close>: the first row, or undefined.\<close>

fun first :: "'a list \<Rightarrow> 'a option" where
  "first [] = None"
| "first (x # xs) = Some x"

text \<open>\<^verbatim>\<open>db.select().from(species).where(eq(species.id, id))\<close>\<close>

definition select_by_id :: "int \<Rightarrow> table \<Rightarrow> row list" where
  "select_by_id i t = filter (\<lambda>r. r ''id'' = Some (JNum i)) t"

text \<open>
  \<^verbatim>\<open>db.update(species).set(u).where(eq(species.id, id)).returning()\<close>: one statement
  that overwrites the columns named in \<open>u\<close> in every row with that id, and returns
  the rows as updated. The keys of \<open>u\<close> are taken to be columns of the table.
\<close>

definition update_by_id :: "int \<Rightarrow> obj \<Rightarrow> table \<Rightarrow> table" where
  "update_by_id i u t = map (\<lambda>r. if r ''id'' = Some (JNum i) then r ++ u else r) t"

definition returning :: "int \<Rightarrow> obj \<Rightarrow> table \<Rightarrow> row list" where
  "returning i u t = map (\<lambda>r. r ++ u) (select_by_id i t)"

section \<open>SpeciesRepository (backend)\<close>

subsection \<open>findAll\<close>

record find_params =
  page :: "int option"
  limit :: "int option"
  search :: "string option"
  mainGroup :: "string option"
  status :: "string option"

record pagination =
  pg_page :: int
  pg_limit :: int
  total :: int
  totalPages :: "int option"

record find_result =
  data :: "row list"
  pagination :: pagination

definition validStatuses :: "string list" where
  "validStatuses = [''draft'', ''published'', ''archived'']"

definition validGroups :: "string list" where
  "validGroups = [''mammal'', ''bird'', ''reptile'', ''amphibian'', ''fish'', ''insect'',
     ''arachnid'', ''crustacean'', ''mollusk'', ''plant'', ''fungus'', ''algae'', ''other'']"

text \<open>
  The \<^verbatim>\<open>conditions\<close> array. The database's \<^verbatim>\<open>ILIKE\<close> operator is the parameter
  \<open>ilike\<close> (column value, pattern); a comparison with a \<^verbatim>\<open>NULL\<close> column does not
  hold.
\<close>

definition status_conditions :: "string option \<Rightarrow> (row \<Rightarrow> bool) list" where
  "status_conditions st =
     (case st of
        None \<Rightarrow> []
      | Some s \<Rightarrow>
          if s \<noteq> [] \<and> s \<in> set validStatuses
          then [\<lambda>r. r ''status'' = Some (JStr s)] else [])"

definition group_conditions :: "string option \<Rightarrow> (row \<Rightarrow> bool) list" where
  "group_conditions g =
     (case g of
        None \<Rightarrow> []
      | Some s \<Rightarrow>
          if s \<noteq> [] then (if s \<in> set validGroups then [\<lambda>r. r ''mainGroup'' = Some (JStr s)] else [])
          else [])"

definition search_conditions ::
  "(val option \<Rightarrow> string \<Rightarrow> bool) \<Rightarrow> string option \<Rightarrow> (row \<Rightarrow> bool) list" where
  "search_conditions ilike q =
     (case q of
        None \<Rightarrow> []
      | Some s \<Rightarrow>
          if s \<noteq> []
          then [\<lambda>r. ilike (r ''commonName'') (''%'' @ s @ ''%'') \<or>
                    ilike (r ''scientificName'') (''%'' @ s @ ''%'')]
          else [])"

definition conditions ::
  "(val option \<Rightarrow> string \<Rightarrow> bool) \<Rightarrow> find_params \<Rightarrow> (row \<Rightarrow> bool) list" where
  "conditions ilike params =
     status_conditions (status params) @ group_conditions (mainGroup params) @
     search_conditions ilike (search params)"

text \<open>\<^verbatim>\<open>conditions.length > 0 ? and(...conditions) : undefined\<close>, as a row filter.\<close>

definition whereClause ::
  "(val option \<Rightarrow> string \<Rightarrow> bool) \<Rightarrow> find_params \<Rightarrow> row \<Rightarrow> bool" where
  "whereClause ilike params r = list_all (\<lambda>c. c r) (conditions ilike params)"

text \<open>
  \<^verbatim>\<open>.orderBy(desc(species.createdAt))\<close> is the only sort key of the query. The
  database sorts descending with \<^verbatim>\<open>NULL\<close> first and leaves rows with equal keys in
  the order it happens to produce them: a stable sort over the scan order. The sort
  key of a row is \<open>None\<close> for \<^verbatim>\<open>NULL\<close> and \<open>Some (- d)\<close> for the timestamp \<open>d\<close>,
  sorted ascending (\<open>None\<close> is the least element).
\<close>

definition created_desc_key :: "row \<Rightarrow> int option" where
  "created_desc_key r = (case r ''createdAt'' of Some (JDate d) \<Rightarrow> Some (- d) | _ \<Rightarrow> None)"

definition order_by_created_desc :: "row list \<Rightarrow> row list" where
  "order_by_created_desc rows = sort_key created_desc_key rows"

text \<open>\<^verbatim>\<open>Math.ceil(count / limit)\<close> for a non-zero limit.\<close>

definition ceil_div :: "int \<Rightarrow> int \<Rightarrow> int" where
  "ceil_div a b = - ((- a) div b)"

text \<open>
  The query returns the page of rows, each with \<^verbatim>\<open>count(*) OVER()\<close>, the number of
  rows that pass the filter. The database rejects a negative \<^verbatim>\<open>LIMIT\<close> or
  \<^verbatim>\<open>OFFSET\<close>. With limit 0 the page is empty, the count 0 and
  \<^verbatim>\<open>Math.ceil(0 / 0)\<close> is \<^verbatim>\<open>NaN\<close>: \<open>totalPages = None\<close>.
\<close>

definition findAll ::
  "(val option \<Rightarrow> string \<Rightarrow> bool) \<Rightarrow> find_params \<Rightarrow> table \<Rightarrow> error + find_result" where
  "findAll ilike params t =
     (let pg = (case page params of None \<Rightarrow> 1 | Some p \<Rightarrow> p);
          lim = (case limit params of None \<Rightarrow> 20 | Some l \<Rightarrow> l);
          offset = (pg - 1) * lim
      in if lim < 0 \<or> offset < 0 then Inl DbError
         else
           let matching = order_by_created_desc (filter (whereClause ilike params) t);
               results = take (nat lim) (drop (nat offset) matching);
               count = (if length results > 0 then int (length matching) else 0)
           in Inr \<lparr>data = results,
                   pagination = \<lparr>pg_page = pg, pg_limit = lim, total = count,
                     totalPages = (if lim = 0 then None else Some (ceil_div count lim))\<rparr>\<rparr>)"

subsection \<open>findById, findBySlug, create, update, delete\<close>

definition findById :: "int \<Rightarrow> bool \<Rightarrow> table \<Rightarrow> row option" where
  "findById i includeDraft t =
     (case first (select_by_id i t) of
        None \<Rightarrow> None
      | Some result \<Rightarrow>
          if includeDraft \<and> truthy (result ''hasDraft'') \<and> truthy (result ''draftData'')
          then Some ((result ++ spread (result ''draftData''))(''isDraft'' \<mapsto> JBool True))
          else Some result)"

definition findBySlug :: "string \<Rightarrow> table \<Rightarrow> row option" where
  "findBySlug slug t = first (filter (\<lambda>r. r ''slug'' = Some (JStr slug)) t)"

text \<open>
  \<^verbatim>\<open>db.insert(species).values(data).returning()\<close>: the new row takes the columns
  given in \<open>data\<close> and, for the others, what the database fills in (column defaults,
  the generated id). The table's schema is not part of the sources at hand, so that
  row of defaults is the parameter \<open>dflt\<close>.
\<close>

definition create :: "row \<Rightarrow> obj \<Rightarrow> table \<Rightarrow> row option \<times> table" where
  "create dflt dat t = (Some (dflt ++ dat), t @ [dflt ++ dat])"

definition update :: "int \<Rightarrow> int \<Rightarrow> obj \<Rightarrow> table \<Rightarrow> row option \<times> table" where
  "update now i dat t =
     (let u = dat(''updatedAt'' \<mapsto> JDate now)
      in (first (returning i u t), update_by_id i u t))"

definition delete :: "int \<Rightarrow> table \<Rightarrow> table" where
  "delete i t = filter (\<lambda>r. r ''id'' \<noteq> Some (JNum i)) t"

subsection \<open>publish, createDraft, discardDraft\<close>

text \<open>
  The object \<^verbatim>\<open>updateData\<close> of \<^verbatim>\<open>publish\<close>, built from the current row: the draft's
  fields other than \<^verbatim>\<open>richContent\<close>, then \<^verbatim>\<open>richContent\<close>, then the draft and
  lifecycle columns, and last the removal of undefined values.
\<close>

definition updateData :: "int \<Rightarrow> row \<Rightarrow> obj" where
  "updateData now current =
     (let draftRichContentField = get_prop (current ''draftData'') ''richContent'';
          otherDraftFields = (spread (current ''draftData''))(''richContent'' := None);
          richContentToSave =
            (if draftRichContentField \<noteq> None then draftRichContentField
             else current ''richContent'')
      in remove_undefined
           ((lit otherDraftFields)
              (''richContent'' \<mapsto> richContentToSave,
               ''draftData'' \<mapsto> Some JNull,
               ''hasDraft'' \<mapsto> Some (JBool False),
               ''draftCreatedAt'' \<mapsto> Some JNull,
               ''status'' \<mapsto> Some (JStr ''published''),
               ''publishedAt'' \<mapsto> Some (JDate now),
               ''updatedAt'' \<mapsto> Some (JDate now))))"

text \<open>
  The object set when a record in draft status without an overlay is published.
\<close>

definition publishSet :: "int \<Rightarrow> obj" where
  "publishSet now =
     [''status'' \<mapsto> JStr ''published'', ''publishedAt'' \<mapsto> JDate now,
      ''updatedAt'' \<mapsto> JDate now]"

text \<open>
  Each operation returns its result (or the exception it throws) and the table it
  leaves behind: an exception thrown after an update does not undo the update. The
  logging statements of \<^verbatim>\<open>publish\<close> read \<^verbatim>\<open>result.status\<close> and
  \<^verbatim>\<open>verification.richContent\<close>, which throws a \<^verbatim>\<open>TypeError\<close> when the row
  read back is undefined.
\<close>

definition publish :: "int \<Rightarrow> int \<Rightarrow> table \<Rightarrow> (error + row) \<times> table" where
  "publish now i t =
     (case first (select_by_id i t) of
        None \<Rightarrow> (Inl (Error ''Species not found''), t)
      | Some current \<Rightarrow>
          if truthy (current ''draftData'') then
            (let u = updateData now current;
                 t' = update_by_id i u t
             in case first (returning i u t) of
                  None \<Rightarrow> (Inl TypeError, t')
                | Some result \<Rightarrow>
                    (case first (select_by_id i t') of
                       None \<Rightarrow> (Inl TypeError, t')
                     | Some verification \<Rightarrow> (Inr result, t')))
          else if current ''status'' = Some (JStr ''draft'') then
            (let u = publishSet now;
                 t' = update_by_id i u t
             in case first (returning i u t) of
                  None \<Rightarrow> (Inl TypeError, t')
                | Some result \<Rightarrow> (Inr result, t'))
          else (Inl (Error ''Nothing to publish''), t))"

text \<open>
  The object that \<^verbatim>\<open>createDraft\<close> passes to \<^verbatim>\<open>set\<close>: the patch merged over the
  existing draft (\<^verbatim>\<open>current.draftData || {}\<close>), the draft flag, the start marker
  (\<^verbatim>\<open>current.draftCreatedAt || new Date()\<close>) and the update time.
\<close>

definition draftSet :: "int \<Rightarrow> row \<Rightarrow> obj \<Rightarrow> obj" where
  "draftSet now current draftData =
     (let existingDraft = js_or_val (current ''draftData'') (JObj Map.empty);
          updatedDraft = spread (Some existingDraft) ++ draftData
      in [''draftData'' \<mapsto> JObj updatedDraft,
          ''hasDraft'' \<mapsto> JBool True,
          ''draftCreatedAt'' \<mapsto> js_or_val (current ''draftCreatedAt'') (JDate now),
          ''updatedAt'' \<mapsto> JDate now])"

definition createDraft :: "int \<Rightarrow> int \<Rightarrow> obj \<Rightarrow> table \<Rightarrow> (error + row option) \<times> table" where
  "createDraft now i draftData t =
     (case first (select_by_id i t) of
        None \<Rightarrow> (Inl (Error ''Species not found''), t)
      | Some current \<Rightarrow>
          (let u = draftSet now current draftData
           in (Inr (first (returning i u t)), update_by_id i u t)))"

definition discardSet :: "int \<Rightarrow> obj" where
  "discardSet now =
     [''draftData'' \<mapsto> JNull, ''hasDraft'' \<mapsto> JBool False,
      ''draftCreatedAt'' \<mapsto> JNull, ''updatedAt'' \<mapsto> JDate now]"

definition discardDraft :: "int \<Rightarrow> int \<Rightarrow> table \<Rightarrow> row option \<times> table" where
  "discardDraft now i t =
     (first (returning i (discardSet now) t), update_by_id i (discardSet now) t)"

section \<open>SpeciesRepository (public site client)\<close>

text \<open>
  The public site reads through the API client. \<^verbatim>\<open>findById\<close> receives the
  response of \<^verbatim>\<open>apiClient.species.findById(id)\<close>: a JSON value, or an exception
  of the client, which the \<^verbatim>\<open>catch\<close> turns into \<^verbatim>\<open>null\<close> (\<open>None\<close>).
\<close>

definition mainImageUrl :: "val \<Rightarrow> val" where
  "mainImageUrl response =
     js_or_val
       (js_or (get_prop (get_prop (Some response) ''mainImage'') ''url'')
              (get_prop (Some response) ''mainImageUrl''))
       JNull"

definition client_findById :: "error + val \<Rightarrow> obj option" where
  "client_findById reply =
     (case reply of
        Inl e \<Rightarrow> None
      | Inr response \<Rightarrow>
          if \<not> truthy (Some response) then None
          else Some ((spread (Some response))(''mainImageUrl'' \<mapsto> mainImageUrl response)))"

section \<open>UsersService.update\<close>








section \<open>Notions used to state the properties\<close>



text \<open>The draft overlay that \<^verbatim>\<open>createDraft\<close> merges a patch into.\<close>

definition existing_draft :: "row \<Rightarrow> obj" where
  "existing_draft current = spread (Some (js_or_val (current ''draftData'') (JObj Map.empty)))"

text \<open>\<^verbatim>\<open>hasDraft == (draftData != null)\<close> on a stored row.\<close>

definition consistent :: "row \<Rightarrow> bool" where
  "consistent r = (r ''hasDraft'' = Some (JBool (not_null (r ''draftData''))))"

text \<open>A row without a pending draft, and a row without its \<^verbatim>\<open>updatedAt\<close> column.\<close>

definition no_draft :: "row \<Rightarrow> bool" where
  "no_draft r = (r ''draftData'' = Some JNull \<and> r ''hasDraft'' = Some (JBool False) \<and>
                 r ''draftCreatedAt'' = Some JNull)"

definition but_updatedAt :: "row \<Rightarrow> row" where
  "but_updatedAt r = r(''updatedAt'' := None)"

subsection \<open>Example data\<close>

text \<open>
  A published record with a pending draft overlay (one field changed, one set to
  \<^verbatim>\<open>null\<close>), a record that was never published, and an archived one.
\<close>

definition puma_draft :: obj where
  "puma_draft = [''commonName'' \<mapsto> JStr ''Puma concolor'', ''habitat'' \<mapsto> JNull]"

definition puma :: row where
  "puma = [''id'' \<mapsto> JNum 42, ''slug'' \<mapsto> JStr ''puma'', ''status'' \<mapsto> JStr ''published'',
           ''commonName'' \<mapsto> JStr ''Puma'', ''habitat'' \<mapsto> JStr ''Andes'',
           ''richContent'' \<mapsto> JNull,
           ''draftData'' \<mapsto> JObj puma_draft,
           ''hasDraft'' \<mapsto> JBool True, ''draftCreatedAt'' \<mapsto> JDate 8,
           ''publishedAt'' \<mapsto> JDate 6, ''createdAt'' \<mapsto> JDate 5, ''updatedAt'' \<mapsto> JDate 8]"

definition condor :: row where
  "condor = [''id'' \<mapsto> JNum 7, ''slug'' \<mapsto> JStr ''condor'', ''status'' \<mapsto> JStr ''draft'',
             ''commonName'' \<mapsto> JStr ''Condor'', ''habitat'' \<mapsto> JStr ''Cliffs'',
             ''richContent'' \<mapsto> JNull, ''draftData'' \<mapsto> JNull,
             ''hasDraft'' \<mapsto> JBool False, ''draftCreatedAt'' \<mapsto> JNull,
             ''publishedAt'' \<mapsto> JNull, ''createdAt'' \<mapsto> JDate 5, ''updatedAt'' \<mapsto> JDate 5]"

definition huemul :: row where
  "huemul = [''id'' \<mapsto> JNum 3, ''slug'' \<mapsto> JStr ''huemul'', ''status'' \<mapsto> JStr ''archived'',
             ''commonName'' \<mapsto> JStr ''Huemul'', ''habitat'' \<mapsto> JStr ''Forest'',
             ''richContent'' \<mapsto> JNull, ''draftData'' \<mapsto> JNull,
             ''hasDraft'' \<mapsto> JBool False, ''draftCreatedAt'' \<mapsto> JNull,
             ''publishedAt'' \<mapsto> JDate 2, ''createdAt'' \<mapsto> JDate 9, ''updatedAt'' \<mapsto> JDate 9]"

text \<open>Query parameters with every field omitted, and an \<^verbatim>\<open>ILIKE\<close> that matches nothing.\<close>

definition no_params :: find_params where
  "no_params = \<lparr>page = None, limit = None, search = None, mainGroup = None, status = None\<rparr>"

definition ilike_never :: "val option \<Rightarrow> string \<Rightarrow> bool" where
  "ilike_never v p = False"

text \<open>
  The page and limit a call uses, the matching rows in query order, and the rows of
  the page \<open>p\<close> of a listing.
\<close>

definition the_page :: "find_params \<Rightarrow> int" where
  "the_page params = (case page params of None \<Rightarrow> 1 | Some p \<Rightarrow> p)"

definition the_limit :: "find_params \<Rightarrow> int" where
  "the_limit params = (case limit params of None \<Rightarrow> 20 | Some l \<Rightarrow> l)"

definition matching_rows :: "(val option \<Rightarrow> string \<Rightarrow> bool) \<Rightarrow> find_params \<Rightarrow> table \<Rightarrow> row list" where
  "matching_rows ilike params t = order_by_created_desc (filter (whereClause ilike params) t)"



text \<open>A record whose draft overlay names the primary key.\<close>

definition pudu :: row where
  "pudu = [''id'' \<mapsto> JNum 11, ''slug'' \<mapsto> JStr ''pudu'', ''status'' \<mapsto> JStr ''published'',
           ''commonName'' \<mapsto> JStr ''Pudu'', ''habitat'' \<mapsto> JStr ''Forest'',
           ''richContent'' \<mapsto> JNull, ''draftData'' \<mapsto> JObj [''id'' \<mapsto> JNum 99],
           ''hasDraft'' \<mapsto> JBool True, ''draftCreatedAt'' \<mapsto> JDate 8,
           ''publishedAt'' \<mapsto> JDate 6, ''createdAt'' \<mapsto> JDate 4, ''updatedAt'' \<mapsto> JDate 8]"











section \<open>Facts about the table operations\<close>

lemma map_add_absent: "u k = None \<Longrightarrow> (r ++ u) k = r k"
  by (simp add: map_add_def)

lemma first_None: "first xs = None \<longleftrightarrow> xs = []"
  by (cases xs) simp_all

lemma first_returning:
  "first (returning i u t) = map_option (\<lambda>r. r ++ u) (first (select_by_id i t))"
  by (cases "select_by_id i t") (simp_all add: returning_def)

lemma first_select_mem:
  assumes "first (select_by_id i t) = Some r"
  shows "r \<in> set t \<and> r ''id'' = Some (JNum i)"
proof -
  from assms obtain rs where "select_by_id i t = r # rs"
    by (cases "select_by_id i t") simp_all
  then have "r \<in> set (select_by_id i t)"
    by simp
  then show ?thesis
    by (simp add: select_by_id_def)
qed


lemma update_by_id_twice:
  "''id'' \<notin> dom u1 \<Longrightarrow>
   update_by_id i u2 (update_by_id i u1 t) = update_by_id i (u1 ++ u2) t"
  by (induction t) (simp_all add: update_by_id_def map_add_absent domIff)


lemma update_by_id_all:
  assumes "list_all P t" and "\<And>r. P r \<Longrightarrow> P (r ++ u)"
  shows "list_all P (update_by_id i u t)"
  using assms by (induction t) (simp_all add: update_by_id_def)

subsection \<open>The objects written by publish, createDraft and discardDraft\<close>

lemma updateData_apply:
  "updateData now cur k =
     (if k = ''updatedAt'' then Some (JDate now)
      else if k = ''publishedAt'' then Some (JDate now)
      else if k = ''status'' then Some (JStr ''published'')
      else if k = ''draftCreatedAt'' then Some JNull
      else if k = ''hasDraft'' then Some (JBool False)
      else if k = ''draftData'' then Some JNull
      else if k = ''richContent'' then
        (if spread (cur ''draftData'') ''richContent'' \<noteq> None
         then spread (cur ''draftData'') ''richContent'' else cur ''richContent'')
      else spread (cur ''draftData'') k)"
  by (simp add: updateData_def Let_def remove_undefined_def lit_def get_prop_def
           split: option.splits)

lemma updateData_status:
  "updateData now cur ''status'' = Some (JStr ''published'')"
  "updateData now cur ''publishedAt'' = Some (JDate now)"
  "updateData now cur ''updatedAt'' = Some (JDate now)"
  "updateData now cur ''draftData'' = Some JNull"
  "updateData now cur ''hasDraft'' = Some (JBool False)"
  "updateData now cur ''draftCreatedAt'' = Some JNull"
  by (simp_all add: updateData_apply)




lemma snd_publish_draft:
  assumes "first (select_by_id i t) = Some current" and "truthy (current ''draftData'')"
  shows "snd (publish now i t) = update_by_id i (updateData now current) t"
  using assms by (simp add: publish_def Let_def split: option.splits)

lemma draftSet_apply:
  "draftSet now cur p k =
     (if k = ''updatedAt'' then Some (JDate now)
      else if k = ''draftCreatedAt'' then Some (js_or_val (cur ''draftCreatedAt'') (JDate now))
      else if k = ''hasDraft'' then Some (JBool True)
      else if k = ''draftData'' then Some (JObj (existing_draft cur ++ p))
      else None)"
  by (simp add: draftSet_def Let_def existing_draft_def)


lemma snd_createDraft:
  assumes "first (select_by_id i t) = Some current"
  shows "snd (createDraft now i p t) = update_by_id i (draftSet now current p) t"
  using assms by (simp add: createDraft_def Let_def)







lemma discardSet_id: "''id'' \<notin> dom (discardSet now)"
  by (simp add: discardSet_def)

lemma discardSet_twice: "discardSet n1 ++ discardSet n2 = discardSet n2"
  by (rule ext) (simp add: discardSet_def map_add_def)

lemma discard_twice_table:
  "update_by_id i (discardSet n2) (update_by_id i (discardSet n1) t) =
   update_by_id i (discardSet n2) t"
  by (simp only: update_by_id_twice [OF discardSet_id] discardSet_twice)

lemma but_updatedAt_discard:
  "but_updatedAt ((r ++ discardSet n1) ++ discardSet n2) = but_updatedAt (r ++ discardSet n1)"
  by (rule ext) (simp add: but_updatedAt_def discardSet_def map_add_def)

lemma but_updatedAt_no_draft:
  "no_draft r \<Longrightarrow> but_updatedAt (r ++ discardSet n) = but_updatedAt r"
  by (rule ext) (auto simp add: but_updatedAt_def discardSet_def map_add_def no_draft_def)

lemma discard_twice_columns:
  "map but_updatedAt (update_by_id i (discardSet n2) (update_by_id i (discardSet n1) t)) =
   map but_updatedAt (update_by_id i (discardSet n1) t)"
  using discardSet_id [of n1]
  by (induction t)
     (simp_all add: update_by_id_def map_add_absent domIff but_updatedAt_discard)

lemma discard_no_draft_columns:
  "list_all (\<lambda>r. r ''id'' = Some (JNum i) \<longrightarrow> no_draft r) t \<Longrightarrow>
   map but_updatedAt (update_by_id i (discardSet n) t) = map but_updatedAt t"
  by (induction t) (simp_all add: update_by_id_def but_updatedAt_no_draft)

subsection \<open>The draft flag\<close>

lemma consistent_draftSet: "consistent (r ++ draftSet now cur p)"
  by (simp add: consistent_def map_add_def draftSet_apply)

lemma consistent_discardSet: "consistent (r ++ discardSet now)"
  by (simp add: consistent_def map_add_def discardSet_def)

lemma consistent_updateData: "consistent (r ++ updateData now cur)"
  by (simp add: consistent_def map_add_def updateData_status)

lemma consistent_untouched:
  assumes "consistent r" and "u ''hasDraft'' = None" and "u ''draftData'' = None"
  shows "consistent (r ++ u)"
  using assms by (simp add: consistent_def map_add_def)

lemma consistent_publishSet: "consistent r \<Longrightarrow> consistent (r ++ publishSet now)"
  by (rule consistent_untouched) (simp_all add: publishSet_def)

lemma consistent_createDraft:
  "list_all consistent t \<Longrightarrow> list_all consistent (snd (createDraft now i p t))"
  by (cases "first (select_by_id i t)")
     (simp_all add: createDraft_def Let_def update_by_id_all consistent_draftSet)

lemma consistent_discardDraft:
  "list_all consistent t \<Longrightarrow> list_all consistent (snd (discardDraft now i t))"
  by (simp add: discardDraft_def update_by_id_all consistent_discardSet)

lemma consistent_publish:
  "list_all consistent t \<Longrightarrow> list_all consistent (snd (publish now i t))"
  by (cases "first (select_by_id i t)")
     (simp_all add: publish_def Let_def update_by_id_all consistent_updateData
        consistent_publishSet split: option.splits)

lemma consistent_update:
  assumes "list_all consistent t" and "dat ''hasDraft'' = None" and "dat ''draftData'' = None"
  shows "list_all consistent (snd (update now i dat t))"
proof -
  have "\<And>r. consistent r \<Longrightarrow> consistent (r ++ dat(''updatedAt'' \<mapsto> JDate now))"
    using assms(2,3) by (intro consistent_untouched) simp_all
  then show ?thesis
    using assms(1) by (simp add: update_def Let_def update_by_id_all)
qed

lemma consistent_create:
  assumes "list_all consistent t" and "consistent dflt"
      and "dat ''hasDraft'' = None" and "dat ''draftData'' = None"
  shows "list_all consistent (snd (create dflt dat t))"
  using assms by (simp add: create_def consistent_untouched)

lemma update_by_id_target:
  assumes "\<And>r. P (r ++ u)"
  shows "list_all (\<lambda>r. r ''id'' = Some (JNum i) \<longrightarrow> P r) (update_by_id i u t)"
  using assms by (induction t) (simp_all add: update_by_id_def)

lemma select_none_no_target:
  "select_by_id i t = [] \<Longrightarrow> list_all (\<lambda>r. r ''id'' = Some (JNum i) \<longrightarrow> P r) t"
  by (induction t) (simp_all add: select_by_id_def split: if_splits)

lemma createDraft_establishes:
  "list_all (\<lambda>r. r ''id'' = Some (JNum i) \<longrightarrow> consistent r) (snd (createDraft now i p t))"
proof (cases "first (select_by_id i t)")
  case None
  then have "select_by_id i t = []"
    by (simp add: first_None)
  then show ?thesis
    using None by (simp add: createDraft_def select_none_no_target)
next
  case (Some current)
  then show ?thesis
    by (simp add: snd_createDraft update_by_id_target consistent_draftSet)
qed

lemma discardDraft_establishes:
  "list_all (\<lambda>r. r ''id'' = Some (JNum i) \<longrightarrow> consistent r) (snd (discardDraft now i t))"
  by (simp add: discardDraft_def update_by_id_target consistent_discardSet)

lemma publish_establishes:
  assumes "first (select_by_id i t) = Some current" and "truthy (current ''draftData'')"
  shows "list_all (\<lambda>r. r ''id'' = Some (JNum i) \<longrightarrow> consistent r) (snd (publish now i t))"
  by (simp add: snd_publish_draft [OF assms] update_by_id_target consistent_updateData)

subsection \<open>Filters and pages\<close>

lemma status_conditions_invalid:
  "s \<notin> set validStatuses \<Longrightarrow> status_conditions (Some s) = status_conditions None"
  by (simp add: status_conditions_def)

lemma whereClause_invalid_status:
  assumes "s \<notin> set validStatuses"
  shows "whereClause ilike (params\<lparr>status := Some s\<rparr>) = whereClause ilike (params\<lparr>status := None\<rparr>)"
  by (rule ext) (simp add: whereClause_def conditions_def status_conditions_invalid [OF assms])

lemma whereClause_ignores_status:
  assumes "s \<notin> set validStatuses"
  shows "whereClause ilike (params\<lparr>status := Some s\<rparr>) (r(''status'' := v)) =
         whereClause ilike (params\<lparr>status := Some s\<rparr>) r"
  using assms
  by (simp add: whereClause_def conditions_def status_conditions_def group_conditions_def
        search_conditions_def split: option.splits)






lemma findAll_alt:
  "findAll ilike params t =
     (let pg = the_page params; lim = the_limit params; offset = (pg - 1) * lim
      in if lim < 0 \<or> offset < 0 then Inl DbError
         else
           let results = take (nat lim) (drop (nat offset) (matching_rows ilike params t));
               count = (if length results > 0 then int (length (matching_rows ilike params t)) else 0)
           in Inr \<lparr>data = results,
                   pagination = \<lparr>pg_page = pg, pg_limit = lim, total = count,
                     totalPages = (if lim = 0 then None else Some (ceil_div count lim))\<rparr>\<rparr>)"
  by (simp add: findAll_def the_page_def the_limit_def matching_rows_def Let_def)









lemma created_desc_key_le:
  assumes "a ''createdAt'' = Some (JDate x)" and "b ''createdAt'' = Some (JDate y)"
  shows "created_desc_key a \<le> created_desc_key b \<longleftrightarrow> y \<le> x"
  using assms by (simp add: created_desc_key_def)

lemma findAll_data:
  assumes "findAll ilike params t = Inr res"
  shows "data res = take (nat (the_limit params))
           (drop (nat ((the_page params - 1) * the_limit params)) (matching_rows ilike params t))"
  using assms by (auto simp add: findAll_alt Let_def split: if_splits)

lemma sorted_matching: "sorted (map created_desc_key (matching_rows ilike params t))"
  by (simp add: matching_rows_def order_by_created_desc_def)

lemma sorted_take_drop:
  "sorted (map f xs) \<Longrightarrow> sorted (map f (take n (drop m xs)))"
  by (simp add: take_map [symmetric] drop_map [symmetric])

lemma matching_stable:
  "filter (\<lambda>r. created_desc_key r = k) (matching_rows ilike params t) =
   filter (\<lambda>r. created_desc_key r = k) (filter (whereClause ilike params) t)"
  by (simp only: matching_rows_def order_by_created_desc_def sort_key_stable)

lemma set_matching: "set (matching_rows ilike params t) = {r \<in> set t. whereClause ilike params r}"
  by (auto simp add: matching_rows_def order_by_created_desc_def)

lemma whereClause_published:
  assumes "status params = Some ''published''" and "whereClause ilike params r"
  shows "r ''status'' = Some (JStr ''published'')"
  using assms
  by (simp add: whereClause_def conditions_def status_conditions_def validStatuses_def)

lemma findAll_published_rows:
  assumes "status params = Some ''published''" and "findAll ilike params t = Inr res"
      and "r \<in> set (data res)"
  shows "r \<in> set t \<and> r ''status'' = Some (JStr ''published'')"
proof -
  have "r \<in> set (matching_rows ilike params t)"
    using assms(3) unfolding findAll_data [OF assms(2)]
    by (blast dest: in_set_takeD in_set_dropD)
  then have "r \<in> set t" and "whereClause ilike params r"
    by (simp_all add: set_matching)
  then show ?thesis
    using whereClause_published [OF assms(1)] by simp
qed

lemma findById_stored:
  assumes "findById i False t = Some r"
  shows "r \<in> set t \<and> r ''id'' = Some (JNum i)"
proof -
  from assms have "first (select_by_id i t) = Some r"
    by (simp add: findById_def split: option.splits)
  then show ?thesis
    by (rule first_select_mem)
qed

lemma findBySlug_stored:
  assumes "findBySlug slug t = Some r"
  shows "r \<in> set t \<and> r ''slug'' = Some (JStr slug)"
proof -
  from assms obtain rs where "filter (\<lambda>r. r ''slug'' = Some (JStr slug)) t = r # rs"
    by (cases "filter (\<lambda>r. r ''slug'' = Some (JStr slug)) t") (simp_all add: findBySlug_def)
  then have "r \<in> set (filter (\<lambda>r. r ''slug'' = Some (JStr slug)) t)"
    by simp
  then show ?thesis
    by simp
qed

lemma client_findById_row:
  "client_findById (Inr (JObj r)) = Some (r(''mainImageUrl'' \<mapsto> mainImageUrl (JObj r)))"
  by (simp add: client_findById_def)

subsection \<open>The users service\<close>




subsection \<open>Outcomes of publish\<close>

lemma select_update_same_id:
  "u ''id'' = None \<or> u ''id'' = Some (JNum i) \<Longrightarrow>
   select_by_id i (update_by_id i u t) = map (\<lambda>r. r ++ u) (select_by_id i t)"
  by (induction t) (auto simp add: select_by_id_def update_by_id_def map_add_def)

lemma publish_not_found:
  "fst (publish now i t) = Inl (Error ''Species not found'') \<longleftrightarrow> select_by_id i t = []"
  by (cases "select_by_id i t")
     (simp_all add: publish_def Let_def first_returning split: option.splits)

lemma publish_nothing_to_publish:
  "fst (publish now i t) = Inl (Error ''Nothing to publish'') \<longleftrightarrow>
     (\<exists>current. first (select_by_id i t) = Some current \<and> \<not> truthy (current ''draftData'') \<and>
        current ''status'' \<noteq> Some (JStr ''draft''))"
  by (cases "select_by_id i t")
     (simp_all add: publish_def Let_def first_returning split: option.splits)

lemma publish_returns_record:
  assumes "first (select_by_id i t) = Some current"
      and "truthy (current ''draftData'') \<or> current ''status'' = Some (JStr ''draft'')"
      and "spread (current ''draftData'') ''id'' = None \<or>
           spread (current ''draftData'') ''id'' = Some (JNum i)"
  shows "fst (publish now i t) =
           Inr (current ++ (if truthy (current ''draftData'') then updateData now current
                            else publishSet now))"
proof -
  have u: "updateData now current ''id'' = None \<or> updateData now current ''id'' = Some (JNum i)"
    using assms(3) by (simp add: updateData_apply)
  have "select_by_id i (update_by_id i (updateData now current) t) =
        map (\<lambda>r. r ++ updateData now current) (select_by_id i t)"
    using u by (rule select_update_same_id)
  moreover have "select_by_id i t \<noteq> []"
    using assms(1) by (cases "select_by_id i t") simp_all
  ultimately have "select_by_id i (update_by_id i (updateData now current) t) \<noteq> []"
    by simp
  then have "first (select_by_id i (update_by_id i (updateData now current) t)) \<noteq> None"
    by (simp add: first_None)
  then show ?thesis
    using assms(1,2)
    by (auto simp add: publish_def Let_def first_returning split: option.splits)
qed

subsection \<open>The example data\<close>

lemma consistent_examples: "consistent puma" "consistent condor" "consistent huemul"
  by (simp_all add: consistent_def puma_def condor_def huemul_def)

lemma findAll_examples_unfiltered:
  "findAll ilike_never no_params [puma, condor, huemul] =
     Inr \<lparr>data = [huemul, puma, condor],
          pagination = \<lparr>pg_page = 1, pg_limit = 20, total = 3, totalPages = Some 1\<rparr>\<rparr>"
  by (simp add: findAll_def no_params_def whereClause_def conditions_def status_conditions_def
        group_conditions_def search_conditions_def order_by_created_desc_def created_desc_key_def
        ceil_div_def puma_def condor_def huemul_def)




section \<open>Public reads\<close>

text \<open>
  Claim C1, as the code has it. The public reads return stored rows as they are
  stored. \<^verbatim>\<open>findAll\<close> with \<^verbatim>\<open>status = published\<close> returns only rows of the table
  whose status is published; \<^verbatim>\<open>findById\<close> without \<^verbatim>\<open>includeDraft\<close> and
  \<^verbatim>\<open>findBySlug\<close> return the row of the table with that id or slug; the public
  client's \<^verbatim>\<open>findById\<close> returns the response with \<^verbatim>\<open>mainImageUrl\<close> recomputed
  and every other key as received. So no value of the draft overlay replaces a
  published value, and the \<^verbatim>\<open>draftData\<close> column is part of every returned record
  with its stored value: nothing on these paths removes it.
\<close>

theorem public_reads_return_stored_rows:
  "(status params = Some ''published'' \<and> findAll ilike params t = Inr res \<longrightarrow>
      (\<forall>r \<in> set (data res). r \<in> set t \<and> r ''status'' = Some (JStr ''published''))) \<and>
   (findById i False t = Some r1 \<longrightarrow> r1 \<in> set t \<and> r1 ''id'' = Some (JNum i)) \<and>
   (findBySlug slug t = Some r2 \<longrightarrow> r2 \<in> set t \<and> r2 ''slug'' = Some (JStr slug)) \<and>
   client_findById (Inr (JObj r3)) = Some (r3(''mainImageUrl'' \<mapsto> mainImageUrl (JObj r3)))"
  using findAll_published_rows [of params ilike t res] findById_stored [of i t r1]
    findBySlug_stored [of slug t r2] client_findById_row [of r3]
  by blast

theorem public_reads_return_stored_rows_witness:
  "status (no_params\<lparr>status := Some ''published''\<rparr>) = Some ''published'' \<and>
   findAll ilike_never (no_params\<lparr>status := Some ''published''\<rparr>) [puma, condor, huemul] =
     Inr \<lparr>data = [puma],
          pagination = \<lparr>pg_page = 1, pg_limit = 20, total = 1, totalPages = Some 1\<rparr>\<rparr> \<and>
   puma \<in> set [puma, condor, huemul] \<and> puma ''status'' = Some (JStr ''published'') \<and>
   findById 42 False [puma, condor, huemul] = Some puma \<and> puma ''id'' = Some (JNum 42) \<and>
   findBySlug ''puma'' [puma, condor, huemul] = Some puma \<and> puma ''slug'' = Some (JStr ''puma'')"
proof -
  have h1: "status (no_params\<lparr>status := Some ''published''\<rparr>) = Some ''published''"
    by simp
  have h2: "findAll ilike_never (no_params\<lparr>status := Some ''published''\<rparr>) [puma, condor, huemul] =
     Inr \<lparr>data = [puma],
          pagination = \<lparr>pg_page = 1, pg_limit = 20, total = 1, totalPages = Some 1\<rparr>\<rparr>"
    by (simp add: findAll_def no_params_def whereClause_def conditions_def status_conditions_def
        group_conditions_def search_conditions_def order_by_created_desc_def created_desc_key_def
        validStatuses_def ceil_div_def puma_def condor_def huemul_def)
  have h3: "findById 42 False [puma, condor, huemul] = Some puma"
    by (simp add: findById_def select_by_id_def puma_def condor_def huemul_def)
  have h4: "findBySlug ''puma'' [puma, condor, huemul] = Some puma"
    by (simp add: findBySlug_def puma_def condor_def huemul_def)
  note T = public_reads_return_stored_rows [of "no_params\<lparr>status := Some ''published''\<rparr>"
      ilike_never "[puma, condor, huemul]" _ 42 puma "''puma''" puma puma]
  from T h1 h2 have "\<forall>r \<in> set (data \<lparr>data = [puma],
          pagination = \<lparr>pg_page = 1, pg_limit = 20, total = 1, totalPages = Some 1\<rparr>\<rparr>).
        r \<in> set [puma, condor, huemul] \<and> r ''status'' = Some (JStr ''published'')"
    by blast
  then have a: "puma \<in> set [puma, condor, huemul]" and b: "puma ''status'' = Some (JStr ''published'')"
    by simp_all
  from T h3 have c: "puma ''id'' = Some (JNum 42)"
    by blast
  from T h4 have d: "puma ''slug'' = Some (JStr ''puma'')"
    by blast
  from h1 h2 a b h3 c h4 d show ?thesis
    by (intro conjI)
qed

text \<open>
  The claim as stated fails: the listing of published records returns the record
  with its pending draft overlay in \<^verbatim>\<open>draftData\<close>, and the client passes it on.
\<close>

theorem findAll_published_includes_draftData:
  "findAll ilike_never (no_params\<lparr>status := Some ''published''\<rparr>) [puma, condor, huemul] =
     Inr \<lparr>data = [puma],
          pagination = \<lparr>pg_page = 1, pg_limit = 20, total = 1, totalPages = Some 1\<rparr>\<rparr> \<and>
   puma ''draftData'' = Some (JObj puma_draft) \<and>
   puma_draft ''commonName'' = Some (JStr ''Puma concolor'') \<and>
   map_option (\<lambda>out. out ''draftData'') (client_findById (Inr (JObj puma))) =
     Some (Some (JObj puma_draft))"
  by (simp add: findAll_def no_params_def whereClause_def conditions_def status_conditions_def
        group_conditions_def search_conditions_def order_by_created_desc_def created_desc_key_def
        validStatuses_def ceil_div_def puma_def condor_def huemul_def client_findById_def
        puma_draft_def)

section \<open>Publishing a draft\<close>



section \<open>The draft flag\<close>

text \<open>
  Claim C3, as the code has it. If \<^verbatim>\<open>hasDraft == (draftData != null)\<close> holds of
  every stored record, it holds of every stored record after \<^verbatim>\<open>createDraft\<close>,
  after \<^verbatim>\<open>discardDraft\<close> and after \<^verbatim>\<open>publish\<close>; it holds after \<^verbatim>\<open>update\<close>
  when the data passed in names neither \<^verbatim>\<open>hasDraft\<close> nor \<^verbatim>\<open>draftData\<close>, and
  after \<^verbatim>\<open>create\<close> under the same condition when the column defaults satisfy it.
  Whatever the state before, the record operated on satisfies it after
  \<^verbatim>\<open>createDraft\<close>, after \<^verbatim>\<open>discardDraft\<close> and after the \<^verbatim>\<open>publish\<close> of a
  record with a draft overlay. \<^verbatim>\<open>update\<close> and \<^verbatim>\<open>create\<close> write whatever columns
  their caller names, so data that sets one of the two columns can break it.
\<close>

theorem hasDraft_consistent_preserved:
  "(list_all consistent t \<longrightarrow>
      list_all consistent (snd (createDraft now i p t)) \<and>
      list_all consistent (snd (discardDraft now i t)) \<and>
      list_all consistent (snd (publish now i t)) \<and>
      (dat ''hasDraft'' = None \<and> dat ''draftData'' = None \<longrightarrow>
         list_all consistent (snd (update now i dat t)) \<and>
         (consistent dflt \<longrightarrow> list_all consistent (snd (create dflt dat t))))) \<and>
   list_all (\<lambda>r. r ''id'' = Some (JNum i) \<longrightarrow> consistent r) (snd (createDraft now i p t)) \<and>
   list_all (\<lambda>r. r ''id'' = Some (JNum i) \<longrightarrow> consistent r) (snd (discardDraft now i t)) \<and>
   (first (select_by_id i t) = Some current \<and> truthy (current ''draftData'') \<longrightarrow>
      list_all (\<lambda>r. r ''id'' = Some (JNum i) \<longrightarrow> consistent r) (snd (publish now i t)))"
  by (simp add: consistent_createDraft consistent_discardDraft consistent_publish
        consistent_update consistent_create createDraft_establishes discardDraft_establishes
        publish_establishes)

theorem hasDraft_consistent_preserved_witness:
  "list_all consistent [puma, condor] \<and>
   list_all consistent (snd (createDraft 9 7 [''habitat'' \<mapsto> JStr ''Sky''] [puma, condor])) \<and>
   list_all consistent (snd (discardDraft 9 42 [puma, condor])) \<and>
   list_all consistent (snd (publish 9 42 [puma, condor])) \<and>
   list_all consistent (snd (update 9 7 [''habitat'' \<mapsto> JStr ''Sky''] [puma, condor])) \<and>
   list_all consistent (snd (create huemul [''slug'' \<mapsto> JStr ''pudu''] [puma, condor]))"
proof -
  have h: "list_all consistent [puma, condor]"
    by (simp add: consistent_examples)
  have d: "[''habitat'' \<mapsto> JStr ''Sky''] ''hasDraft'' = None \<and>
           [''habitat'' \<mapsto> JStr ''Sky''] ''draftData'' = None"
    by simp
  have d': "[''slug'' \<mapsto> JStr ''pudu''] ''hasDraft'' = None \<and>
            [''slug'' \<mapsto> JStr ''pudu''] ''draftData'' = None"
    by simp
  from hasDraft_consistent_preserved [where t = "[puma, condor]" and now = 9 and i = 7
      and p = "[''habitat'' \<mapsto> JStr ''Sky'']" and dat = "[''habitat'' \<mapsto> JStr ''Sky'']"
      and dflt = huemul] h d
  have a: "list_all consistent (snd (createDraft 9 7 [''habitat'' \<mapsto> JStr ''Sky''] [puma, condor]))"
    and b: "list_all consistent (snd (update 9 7 [''habitat'' \<mapsto> JStr ''Sky''] [puma, condor]))"
    by blast+
  from hasDraft_consistent_preserved [where t = "[puma, condor]" and now = 9 and i = 42
      and p = "[''slug'' \<mapsto> JStr ''pudu'']" and dat = "[''slug'' \<mapsto> JStr ''pudu'']"
      and dflt = huemul] h d' consistent_examples(3)
  have c: "list_all consistent (snd (discardDraft 9 42 [puma, condor]))"
    and e: "list_all consistent (snd (publish 9 42 [puma, condor]))"
    and f: "list_all consistent (snd (create huemul [''slug'' \<mapsto> JStr ''pudu''] [puma, condor]))"
    by blast+
  from h a c e b f show ?thesis
    by (intro conjI)
qed

text \<open>
  The claim as stated fails for \<^verbatim>\<open>update\<close>: on a record without a draft,
  \<^verbatim>\<open>update(7, {hasDraft: true})\<close> stores \<^verbatim>\<open>hasDraft = true\<close> next to
  \<^verbatim>\<open>draftData = null\<close>.
\<close>

theorem update_breaks_hasDraft_consistency:
  "list_all consistent [condor] \<and>
   \<not> list_all consistent (snd (update 9 7 [''hasDraft'' \<mapsto> JBool True] [condor])) \<and>
   hd (snd (update 9 7 [''hasDraft'' \<mapsto> JBool True] [condor])) ''hasDraft'' = Some (JBool True) \<and>
   hd (snd (update 9 7 [''hasDraft'' \<mapsto> JBool True] [condor])) ''draftData'' = Some JNull"
  by (simp add: consistent_def condor_def update_def update_by_id_def map_add_def)

section \<open>Pagination\<close>




section \<open>Merging draft patches\<close>



section \<open>Outcomes of publish\<close>

text \<open>
  Claim C6 promises that \<^verbatim>\<open>publish\<close> returns the post-publish record whenever
  the record exists and has a draft. The code misses a case: when the draft overlay
  holds the key \<^verbatim>\<open>id\<close> with another value, the update rewrites the primary key,
  the read-back by the old id finds no row, and the logging statement that reads
  \<^verbatim>\<open>verification.richContent\<close> throws after the record has been published.
\<close>

theorem publish_throws_after_id_rewrite:
  "fst (publish 9 11 [pudu]) = Inl TypeError \<and>
   map (\<lambda>r. r ''id'') (snd (publish 9 11 [pudu])) = [Some (JNum 99)] \<and>
   map (\<lambda>r. r ''status'') (snd (publish 9 11 [pudu])) = [Some (JStr ''published'')] \<and>
   map (\<lambda>r. r ''draftData'') (snd (publish 9 11 [pudu])) = [Some JNull]"
  by (simp add: publish_def select_by_id_def update_by_id_def returning_def pudu_def
        updateData_apply map_add_def Let_def)

section \<open>Order of a listing\<close>

text \<open>
  Claim C7, as the code has it. \<^verbatim>\<open>findAll\<close> has no sort selection; every page it
  returns is ordered by \<^verbatim>\<open>createdAt\<close> descending (a row without \<^verbatim>\<open>createdAt\<close>
  comes first): of two records of the page with a creation time, the earlier one in
  the page is not older. The page is a segment of the matching rows sorted by that
  key alone, and records with equal \<^verbatim>\<open>createdAt\<close> stay in the order in which the
  database yields them; the query has no second sort key, so that order need not be
  ascending in \<^verbatim>\<open>id\<close>.
\<close>

theorem findAll_created_desc:
  assumes "findAll ilike params t = Inr res"
  shows "sorted (map created_desc_key (data res)) \<and>
         (\<forall>i j x y. i < j \<and> j < length (data res) \<and>
             (data res ! i) ''createdAt'' = Some (JDate x) \<and>
             (data res ! j) ''createdAt'' = Some (JDate y) \<longrightarrow> y \<le> x) \<and>
         data res = take (nat (the_limit params))
           (drop (nat ((the_page params - 1) * the_limit params)) (matching_rows ilike params t)) \<and>
         (\<forall>k. filter (\<lambda>r. created_desc_key r = k) (matching_rows ilike params t) =
              filter (\<lambda>r. created_desc_key r = k) (filter (whereClause ilike params) t))"
proof -
  have d: "data res = take (nat (the_limit params))
           (drop (nat ((the_page params - 1) * the_limit params)) (matching_rows ilike params t))"
    using assms by (rule findAll_data)
  have s: "sorted (map created_desc_key (data res))"
    unfolding d using sorted_matching by (rule sorted_take_drop)
  have n: "\<forall>i j x y. i < j \<and> j < length (data res) \<and>
             (data res ! i) ''createdAt'' = Some (JDate x) \<and>
             (data res ! j) ''createdAt'' = Some (JDate y) \<longrightarrow> y \<le> x"
  proof (intro allI impI)
    fix i j x y
    assume h: "i < j \<and> j < length (data res) \<and>
             (data res ! i) ''createdAt'' = Some (JDate x) \<and>
             (data res ! j) ''createdAt'' = Some (JDate y)"
    then have "map created_desc_key (data res) ! i \<le> map created_desc_key (data res) ! j"
      using s by (intro sorted_nth_mono) simp_all
    then have "created_desc_key (data res ! i) \<le> created_desc_key (data res ! j)"
      using h by simp
    then show "y \<le> x"
      using h by (simp add: created_desc_key_le)
  qed
  show ?thesis
    using s n d matching_stable by blast
qed

theorem findAll_created_desc_witness:
  "findAll ilike_never no_params [puma, condor, huemul] =
     Inr \<lparr>data = [huemul, puma, condor],
          pagination = \<lparr>pg_page = 1, pg_limit = 20, total = 3, totalPages = Some 1\<rparr>\<rparr> \<and>
   sorted (map created_desc_key [huemul, puma, condor]) \<and>
   map (\<lambda>r. r ''createdAt'') [huemul, puma, condor] =
     [Some (JDate 9), Some (JDate 5), Some (JDate 5)]"
proof -
  note h = findAll_examples_unfiltered
  from findAll_created_desc [OF h]
  have "sorted (map created_desc_key (data \<lparr>data = [huemul, puma, condor],
          pagination = \<lparr>pg_page = 1, pg_limit = 20, total = 3, totalPages = Some 1\<rparr>\<rparr>))"
    by (rule conjunct1)
  then have "sorted (map created_desc_key [huemul, puma, condor])"
    by (simp only: find_result.simps)
  moreover have "map (\<lambda>r. r ''createdAt'') [huemul, puma, condor] =
     [Some (JDate 9), Some (JDate 5), Some (JDate 5)]"
    by (simp add: puma_def condor_def huemul_def)
  ultimately show ?thesis
    using h by (intro conjI)
qed

text \<open>
  The claim as stated fails on ties: two records created at the same time come back
  in the order of the table, here id 42 before id 7.
\<close>

theorem findAll_ties_not_by_id:
  "findAll ilike_never no_params [puma, condor] =
     Inr \<lparr>data = [puma, condor],
          pagination = \<lparr>pg_page = 1, pg_limit = 20, total = 2, totalPages = Some 1\<rparr>\<rparr> \<and>
   map (\<lambda>r. r ''createdAt'') [puma, condor] = [Some (JDate 5), Some (JDate 5)] \<and>
   map (\<lambda>r. r ''id'') [puma, condor] = [Some (JNum 42), Some (JNum 7)]"
  by (simp add: findAll_def no_params_def whereClause_def conditions_def status_conditions_def
        group_conditions_def search_conditions_def order_by_created_desc_def created_desc_key_def
        ceil_div_def puma_def condor_def)

section \<open>Discarding a draft\<close>

text \<open>
  Claim C8, as the code has it. \<^verbatim>\<open>discardDraft\<close> is idempotent except for
  \<^verbatim>\<open>updatedAt\<close>, which every call sets to its own time: two calls in a row leave
  the table that a single call at the time of the second leaves, and leave every
  column other than \<^verbatim>\<open>updatedAt\<close> as the first call left it. When the record has
  no draft, a call changes no column other than \<^verbatim>\<open>updatedAt\<close> (the published
  fields are untouched). \<^verbatim>\<open>discardDraft\<close> never throws: its result is a row or
  undefined.
\<close>

theorem discardDraft_idempotent_but_updatedAt:
  "snd (discardDraft n2 i (snd (discardDraft n1 i t))) = snd (discardDraft n2 i t) \<and>
   map but_updatedAt (snd (discardDraft n2 i (snd (discardDraft n1 i t)))) =
     map but_updatedAt (snd (discardDraft n1 i t)) \<and>
   (list_all (\<lambda>r. r ''id'' = Some (JNum i) \<longrightarrow> no_draft r) t \<longrightarrow>
      map but_updatedAt (snd (discardDraft n1 i t)) = map but_updatedAt t)"
proof (intro conjI impI)
  show "snd (discardDraft n2 i (snd (discardDraft n1 i t))) = snd (discardDraft n2 i t)"
    by (simp only: discardDraft_def snd_conv discard_twice_table)
  show "map but_updatedAt (snd (discardDraft n2 i (snd (discardDraft n1 i t)))) =
     map but_updatedAt (snd (discardDraft n1 i t))"
    by (simp only: discardDraft_def snd_conv discard_twice_columns)
  assume "list_all (\<lambda>r. r ''id'' = Some (JNum i) \<longrightarrow> no_draft r) t"
  then show "map but_updatedAt (snd (discardDraft n1 i t)) = map but_updatedAt t"
    by (simp only: discardDraft_def snd_conv discard_no_draft_columns)
qed

theorem discardDraft_idempotent_but_updatedAt_witness:
  "list_all (\<lambda>r. r ''id'' = Some (JNum 7) \<longrightarrow> no_draft r) [puma, condor] \<and>
   snd (discardDraft 2 7 (snd (discardDraft 1 7 [puma, condor]))) =
     snd (discardDraft 2 7 [puma, condor]) \<and>
   map but_updatedAt (snd (discardDraft 2 7 (snd (discardDraft 1 7 [puma, condor])))) =
     map but_updatedAt (snd (discardDraft 1 7 [puma, condor])) \<and>
   map but_updatedAt (snd (discardDraft 1 7 [puma, condor])) = map but_updatedAt [puma, condor]"
proof -
  have h: "list_all (\<lambda>r. r ''id'' = Some (JNum 7) \<longrightarrow> no_draft r) [puma, condor]"
    by (simp add: no_draft_def puma_def condor_def)
  with discardDraft_idempotent_but_updatedAt [of 2 7 1 "[puma, condor]"] show ?thesis
    by blast
qed

text \<open>
  The claim as stated fails on \<^verbatim>\<open>updatedAt\<close>: a second call at a later time
  leaves a state other than that of the first call, and a call on a record without a
  draft is not a no-op.
\<close>

theorem discardDraft_twice_changes_updatedAt:
  "snd (discardDraft 2 42 (snd (discardDraft 1 42 [puma]))) \<noteq> snd (discardDraft 1 42 [puma]) \<and>
   map (\<lambda>r. r ''updatedAt'') (snd (discardDraft 1 42 [puma])) = [Some (JDate 1)] \<and>
   map (\<lambda>r. r ''updatedAt'') (snd (discardDraft 2 42 (snd (discardDraft 1 42 [puma])))) =
     [Some (JDate 2)] \<and>
   no_draft condor \<and> snd (discardDraft 6 7 [condor]) \<noteq> [condor] \<and>
   map (\<lambda>r. r ''updatedAt'') [condor] = [Some (JDate 5)] \<and>
   map (\<lambda>r. r ''updatedAt'') (snd (discardDraft 6 7 [condor])) = [Some (JDate 6)]"
proof -
  have a: "map (\<lambda>r. r ''updatedAt'') (snd (discardDraft 1 42 [puma])) = [Some (JDate 1)]"
    by (simp add: discardDraft_def discardSet_def update_by_id_def puma_def map_add_def)
  have b: "map (\<lambda>r. r ''updatedAt'') (snd (discardDraft 2 42 (snd (discardDraft 1 42 [puma])))) =
     [Some (JDate 2)]"
    by (simp add: discardDraft_def discardSet_def update_by_id_def puma_def map_add_def)
  have c: "map (\<lambda>r. r ''updatedAt'') [condor] = [Some (JDate 5)]"
    by (simp add: condor_def)
  have d: "map (\<lambda>r. r ''updatedAt'') (snd (discardDraft 6 7 [condor])) = [Some (JDate 6)]"
    by (simp add: discardDraft_def discardSet_def update_by_id_def condor_def map_add_def)
  have e: "no_draft condor"
    by (simp add: no_draft_def condor_def)
  from a b have ab: "snd (discardDraft 2 42 (snd (discardDraft 1 42 [puma]))) \<noteq>
      snd (discardDraft 1 42 [puma])"
    by auto
  from c d have cd: "snd (discardDraft 6 7 [condor]) \<noteq> [condor]"
    by auto
  from ab a b e cd c d show ?thesis
    by (intro conjI)
qed

section \<open>Role changes\<close>



section \<open>A status outside the enumeration\<close>

text \<open>
  Claim C10. When \<^verbatim>\<open>findAll\<close> is called with a status that is not one of
  \<^verbatim>\<open>draft\<close>, \<^verbatim>\<open>published\<close>, \<^verbatim>\<open>archived\<close>, the status filter is dropped: the
  call returns what the call without a status returns (neither an empty result nor
  an error of its own), and whether a row passes the filter does not depend on the
  row's status.
\<close>

theorem findAll_invalid_status_unfiltered:
  assumes "s \<notin> set validStatuses"
  shows "findAll ilike (params\<lparr>status := Some s\<rparr>) t = findAll ilike (params\<lparr>status := None\<rparr>) t \<and>
         (\<forall>r v. whereClause ilike (params\<lparr>status := Some s\<rparr>) (r(''status'' := v)) =
                whereClause ilike (params\<lparr>status := Some s\<rparr>) r)"
proof (intro conjI allI)
  show "findAll ilike (params\<lparr>status := Some s\<rparr>) t = findAll ilike (params\<lparr>status := None\<rparr>) t"
    unfolding findAll_def whereClause_invalid_status [OF assms] by simp
  show "\<And>r v. whereClause ilike (params\<lparr>status := Some s\<rparr>) (r(''status'' := v)) =
                whereClause ilike (params\<lparr>status := Some s\<rparr>) r"
    by (rule whereClause_ignores_status [OF assms])
qed

theorem findAll_invalid_status_unfiltered_witness:
  "''publishd'' \<notin> set validStatuses \<and>
   findAll ilike_never (no_params\<lparr>status := Some ''publishd''\<rparr>) [puma, condor, huemul] =
     Inr \<lparr>data = [huemul, puma, condor],
          pagination = \<lparr>pg_page = 1, pg_limit = 20, total = 3, totalPages = Some 1\<rparr>\<rparr> \<and>
   map (\<lambda>r. r ''status'') [huemul, puma, condor] =
     [Some (JStr ''archived''), Some (JStr ''published''), Some (JStr ''draft'')]"
proof -
  have h: "''publishd'' \<notin> set validStatuses"
    by (simp add: validStatuses_def)
  have n: "no_params\<lparr>status := None\<rparr> = no_params"
    by (simp add: no_params_def)
  from findAll_invalid_status_unfiltered [OF h, of ilike_never no_params "[puma, condor, huemul]"]
  have "findAll ilike_never (no_params\<lparr>status := Some ''publishd''\<rparr>) [puma, condor, huemul] =
        findAll ilike_never no_params [puma, condor, huemul]"
    by (simp only: n)
  then have "findAll ilike_never (no_params\<lparr>status := Some ''publishd''\<rparr>) [puma, condor, huemul] =
     Inr \<lparr>data = [huemul, puma, condor],
          pagination = \<lparr>pg_page = 1, pg_limit = 20, total = 3, totalPages = Some 1\<rparr>\<rparr>"
    by (simp only: findAll_examples_unfiltered)
  moreover have "map (\<lambda>r. r ''status'') [huemul, puma, condor] =
     [Some (JStr ''archived''), Some (JStr ''published''), Some (JStr ''draft'')]"
    by (simp add: puma_def condor_def huemul_def)
  ultimately show ?thesis
    using h by (intro conjI)
qed

end
